theory Spec2Isabelle
  imports Main
begin

section \<open>Errors and outcomes\<close>

text \<open>
  Every way a request handler of \<^verbatim>\<open>main.py\<close> can end without a value is a
  constructor: \<^verbatim>\<open>raise HTTPException(status_code, detail)\<close>, the
  \<^verbatim>\<open>InvalidId\<close> of \<^verbatim>\<open>bson.ObjectId\<close>, the validation error of a
  pydantic model constructor, an exception of a store call, and the duplicate-key
  error of the store's unique \<^verbatim>\<open>_id\<close> index.
\<close>

datatype error =
    HTTPException nat string
  | InvalidId
  | ValidationError
  | StoreUnavailableError
  | DuplicateKeyError

text \<open>The status the HTTP layer answers with: an exception that is not an
  \<^verbatim>\<open>HTTPException\<close> is unhandled and becomes a 500.\<close>

fun status_code :: "error \<Rightarrow> nat" where
  "status_code (HTTPException n d) = n"
| "status_code e = 500"

section \<open>Object ids\<close>

text \<open>
  \<^verbatim>\<open>ObjectId(s)\<close> for a string \<^verbatim>\<open>s\<close>: twenty-four hexadecimal digits, read
  without regard to case; anything else raises \<^verbatim>\<open>InvalidId\<close>. An id is kept as
  its lower-case rendering, which is what \<^verbatim>\<open>str(oid)\<close> prints.
\<close>

type_synonym oid = string

definition hexdigit :: "char \<Rightarrow> bool" where
  "hexdigit c = (c \<in> set ''0123456789abcdefABCDEF'')"

definition lower_hex :: "char \<Rightarrow> char" where
  "lower_hex c =
     (if c = CHR ''A'' then CHR ''a'' else if c = CHR ''B'' then CHR ''b''
      else if c = CHR ''C'' then CHR ''c'' else if c = CHR ''D'' then CHR ''d''
      else if c = CHR ''E'' then CHR ''e'' else if c = CHR ''F'' then CHR ''f''
      else c)"

definition well_formed_id :: "string \<Rightarrow> bool" where
  "well_formed_id s = (length s = 24 \<and> list_all hexdigit s)"

definition ObjectId :: "string \<Rightarrow> error + oid" where
  "ObjectId s = (if well_formed_id s then Inr (map lower_hex s) else Inl InvalidId)"

definition str_oid :: "oid \<Rightarrow> string" where
  "str_oid i = i"

section \<open>Schemas (schemas.py) and request models (main.py)\<close>

text \<open>
  Prices are Python floats that the schema bounds below by zero, which excludes NaN;
  the code only compares them, so the price type is any linear order. Timestamps are
  integers.
\<close>

record Vendor =
  name :: string
  city :: string
  address :: "string option"
  phone :: "string option"
  cuisine :: "string option"
  image_url :: "string option"
  active :: bool

record 'p Offer =
  title :: string
  description :: "string option"
  vendor_name :: string
  city :: string
  address :: "string option"
  cuisine :: "string option"
  tags :: "string list"
  original_price :: 'p
  price :: 'p
  quantity :: int
  pickup_start :: int
  pickup_end :: int
  image_url :: "string option"
  active :: bool

text \<open>The bounds of the \<^verbatim>\<open>Offer\<close> schema (\<^verbatim>\<open>ge=0\<close> on both prices and on the
  quantity): the HTTP layer validates a request body against them before
  \<^verbatim>\<open>create_offer\<close> runs.\<close>

definition Offer_valid :: "('p::{zero,linorder}) Offer \<Rightarrow> bool" where
  "Offer_valid offer =
     (0 \<le> original_price offer \<and> 0 \<le> price offer \<and> 0 \<le> Offer.quantity offer)"

record ReservationIn =
  offer_id :: string
  customer_name :: string
  customer_phone :: string
  quantity :: int

record Reservation = ReservationIn +
  status :: string

text \<open>The constructor call \<^verbatim>\<open>Reservation(offer_id=..., ..., status=...)\<close>: the
  schema's \<^verbatim>\<open>ge=1\<close> on the quantity is checked, and a violation raises.\<close>

definition Reservation_init ::
  "string \<Rightarrow> string \<Rightarrow> string \<Rightarrow> int \<Rightarrow> string \<Rightarrow> error + Reservation" where
  "Reservation_init oi cn cp q st =
     (if 1 \<le> q
      then Inr \<lparr>offer_id = oi, customer_name = cn, customer_phone = cp,
                ReservationIn.quantity = q, status = st\<rparr>
      else Inl ValidationError)"

text \<open>The response model of the listing. Its fields carry the prefix \<open>out_\<close>
  (and \<open>id\<close> a prime) to keep them apart from the schema's.\<close>

record 'p OfferOut =
  id' :: string
  out_title :: string
  out_vendor_name :: string
  out_city :: string
  out_price :: 'p
  out_original_price :: 'p
  out_quantity :: int
  out_pickup_start :: int
  out_pickup_end :: int
  out_image_url :: "string option"
  out_cuisine :: "string option"
  out_tags :: "string list"
  out_address :: "string option"

section \<open>The document store\<close>

text \<open>
  A stored document is the schema's fields and the \<^verbatim>\<open>_id\<close> the store gave it.
  Every document of the \<^verbatim>\<open>offer\<close> collection was written by
  \<^verbatim>\<open>create_document("offer", offer)\<close> from a validated \<^verbatim>\<open>Offer\<close>, so each
  has every field of the schema, and \<^verbatim>\<open>offer.get("quantity", 0)\<close> reads the
  field. \<^verbatim>\<open>updated_at\<close> is the field the reservation's update sets.
\<close>

record vendor_doc = Vendor +
  vendor_oid :: oid

record 'p offer_doc = "'p Offer" +
  oid :: oid
  updated_at :: "int option"

record reservation_doc = Reservation +
  reservation_oid :: oid

record 'p store =
  db_vendor :: "vendor_doc list"
  db_offer :: "'p offer_doc list"
  db_reservation :: "reservation_doc list"

text \<open>
  What a request takes from its surroundings: the \<^verbatim>\<open>_id\<close> the driver generates
  for the document it inserts, the clock (\<^verbatim>\<open>datetime.utcnow()\<close>), and the store
  call, if any, at which the store raises instead of answering. A store call is
  atomic: it either takes effect and returns, or raises and changes nothing.
\<close>

datatype store_call = FindOne | InsertOne | UpdateOne | Find

record io =
  inserted_id :: oid
  utcnow :: int
  fault :: "store_call option"

text \<open>\<^verbatim>\<open>db["offer"].find_one({"_id": i})\<close>: the first document with that id.\<close>

definition find_one :: "io \<Rightarrow> 'p store \<Rightarrow> oid \<Rightarrow> error + 'p offer_doc option" where
  "find_one e st i =
     (if fault e = Some FindOne then Inl StoreUnavailableError
      else Inr (find (\<lambda>d. oid d = i) (db_offer st)))"

fun update_first :: "('a \<Rightarrow> bool) \<Rightarrow> ('a \<Rightarrow> 'a) \<Rightarrow> 'a list \<Rightarrow> 'a list" where
  "update_first P f [] = []"
| "update_first P f (x # xs) = (if P x then f x # xs else x # update_first P f xs)"

text \<open>\<^verbatim>\<open>db["offer"].update_one({"_id": i}, {"$inc": {"quantity": n},
  "$set": {"updated_at": t}})\<close>: the first document with that id is changed, and the
  update is unconditional.\<close>

definition update_one :: "io \<Rightarrow> 'p store \<Rightarrow> oid \<Rightarrow> int \<Rightarrow> int \<Rightarrow> error + 'p store" where
  "update_one e st i n t =
     (if fault e = Some UpdateOne then Inl StoreUnavailableError
      else Inr (st\<lparr>db_offer :=
        update_first (\<lambda>d. oid d = i)
          (\<lambda>d. d\<lparr>Offer.quantity := Offer.quantity d + n, updated_at := Some t\<rparr>)
          (db_offer st)\<rparr>))"

text \<open>
  Modelled from the spec: \<^verbatim>\<open>create_document\<close> of \<^verbatim>\<open>database.py\<close>, which is not
  among the source files. The spec (4.3) gives it as
  \<^verbatim>\<open>insert(collectionName, document) -> id\<close>, one document inserted and a new
  unique id returned, and (7) a \<^verbatim>\<open>StoreUnavailableError\<close> when the persistence is
  unreachable or misconfigured. One function per collection, since the collections
  hold documents of different types. The store's unique index on \<^verbatim>\<open>_id\<close> refuses
  an id that is already taken.
\<close>

definition create_document_vendor ::
  "io \<Rightarrow> 'p store option \<Rightarrow> Vendor \<Rightarrow> (error + string) \<times> 'p store option" where
  "create_document_vendor e db v =
     (case db of
        None \<Rightarrow> (Inl StoreUnavailableError, db)
      | Some st \<Rightarrow>
          if fault e = Some InsertOne then (Inl StoreUnavailableError, db)
          else if inserted_id e \<in> set (map vendor_oid (db_vendor st))
          then (Inl DuplicateKeyError, db)
          else (Inr (str_oid (inserted_id e)),
                Some (st\<lparr>db_vendor := db_vendor st @
                  [Vendor.extend v (vendor_doc.fields (inserted_id e))]\<rparr>)))"

definition create_document_offer ::
  "io \<Rightarrow> 'p store option \<Rightarrow> 'p Offer \<Rightarrow> (error + string) \<times> 'p store option" where
  "create_document_offer e db offer =
     (case db of
        None \<Rightarrow> (Inl StoreUnavailableError, db)
      | Some st \<Rightarrow>
          if fault e = Some InsertOne then (Inl StoreUnavailableError, db)
          else if inserted_id e \<in> set (map oid (db_offer st))
          then (Inl DuplicateKeyError, db)
          else (Inr (str_oid (inserted_id e)),
                Some (st\<lparr>db_offer := db_offer st @
                  [Offer.extend offer (offer_doc.fields (inserted_id e) None)]\<rparr>)))"

definition create_document_reservation ::
  "io \<Rightarrow> 'p store option \<Rightarrow> Reservation \<Rightarrow> (error + string) \<times> 'p store option" where
  "create_document_reservation e db r =
     (case db of
        None \<Rightarrow> (Inl StoreUnavailableError, db)
      | Some st \<Rightarrow>
          if fault e = Some InsertOne then (Inl StoreUnavailableError, db)
          else if inserted_id e \<in> set (map reservation_oid (db_reservation st))
          then (Inl DuplicateKeyError, db)
          else (Inr (str_oid (inserted_id e)),
                Some (st\<lparr>db_reservation := db_reservation st @
                  [Reservation.extend r (reservation_doc.fields (inserted_id e))]\<rparr>)))"

text \<open>
  Modelled from the spec: \<^verbatim>\<open>get_documents\<close> of \<^verbatim>\<open>database.py\<close>, which is not
  among the source files. The spec (4.3) gives it as
  \<^verbatim>\<open>find(collectionName, filter, limit) -> sequence of documents\<close>: the documents
  that match the filter, in the store's order, at most \<^verbatim>\<open>limit\<close> of them.

  The filter dictionary that \<^verbatim>\<open>list_offers\<close> builds has a fixed set of possible
  keys, one field each; an absent key is \<open>None\<close>. The matching of a regular
  expression under the option \<^verbatim>\<open>i\<close> is the store's and is a parameter \<open>rx\<close>
  (pattern first).
\<close>

record offer_filter =
  f_active :: bool
  f_quantity_gt :: int
  f_city :: "string option"
  f_cuisine :: "string option"
  f_or_regex :: "string option"

definition matches ::
  "(string \<Rightarrow> string \<Rightarrow> bool) \<Rightarrow> offer_filter \<Rightarrow> 'p offer_doc \<Rightarrow> bool" where
  "matches rx filt d =
     (Offer.active d = f_active filt \<and>
      f_quantity_gt filt < Offer.quantity d \<and>
      (case f_city filt of None \<Rightarrow> True | Some c \<Rightarrow> Offer.city d = c) \<and>
      (case f_cuisine filt of None \<Rightarrow> True | Some c \<Rightarrow> Offer.cuisine d = Some c) \<and>
      (case f_or_regex filt of
         None \<Rightarrow> True
       | Some q \<Rightarrow> rx q (title d) \<or> rx q (vendor_name d) \<or> list_ex (rx q) (tags d)))"

definition get_documents_offer ::
  "(string \<Rightarrow> string \<Rightarrow> bool) \<Rightarrow> io \<Rightarrow> 'p store option \<Rightarrow> offer_filter \<Rightarrow> nat
     \<Rightarrow> error + 'p offer_doc list" where
  "get_documents_offer rx e db filt limit =
     (case db of
        None \<Rightarrow> Inl StoreUnavailableError
      | Some st \<Rightarrow>
          if fault e = Some Find then Inl StoreUnavailableError
          else Inr (take limit (filter (matches rx filt) (db_offer st))))"

section \<open>The request handlers (main.py)\<close>

text \<open>Python's truth test of an optional string: \<^verbatim>\<open>None\<close> and the empty string
  are false.\<close>

fun truthy :: "string option \<Rightarrow> bool" where
  "truthy None = False"
| "truthy (Some s) = (s \<noteq> [])"

text \<open>\<^verbatim>\<open>create_vendor\<close>.\<close>

definition create_vendor ::
  "io \<Rightarrow> 'p store option \<Rightarrow> Vendor \<Rightarrow> (error + string) \<times> 'p store option" where
  "create_vendor e db vendor = create_document_vendor e db vendor"

text \<open>\<^verbatim>\<open>create_offer\<close>. \<open>env_code\<close> is the environment variable
  \<^verbatim>\<open>ADMIN_CODE\<close>, \<open>None\<close> when it is not set.\<close>

definition create_offer ::
  "string option \<Rightarrow> io \<Rightarrow> 'p store option \<Rightarrow> ('p::linorder) Offer \<Rightarrow> string option
     \<Rightarrow> (error + string) \<times> 'p store option" where
  "create_offer env_code e db offer admin_code =
     (let required_code = (case env_code of None \<Rightarrow> ''admin123'' | Some c \<Rightarrow> c) in
      if required_code \<noteq> [] \<and> admin_code \<noteq> Some required_code
      then (Inl (HTTPException 401 ''Invalid admin code''), db)
      else if original_price offer < price offer
      then (Inl (HTTPException 400 ''Price must be <= original price''), db)
      else create_document_offer e db offer)"

text \<open>\<^verbatim>\<open>list_offers\<close>: the filter, then one \<^verbatim>\<open>OfferOut\<close> per document.\<close>

definition list_filter :: "string option \<Rightarrow> string option \<Rightarrow> string option \<Rightarrow> offer_filter" where
  "list_filter city' cuisine' q =
     \<lparr>f_active = True, f_quantity_gt = 0,
      f_city = (if truthy city' then city' else None),
      f_cuisine = (if truthy cuisine' then cuisine' else None),
      f_or_regex = (if truthy q then q else None)\<rparr>"

definition to_OfferOut :: "'p offer_doc \<Rightarrow> 'p OfferOut" where
  "to_OfferOut d =
     \<lparr>id' = str_oid (oid d), out_title = title d, out_vendor_name = vendor_name d,
      out_city = Offer.city d, out_price = price d,
      out_original_price = original_price d, out_quantity = Offer.quantity d,
      out_pickup_start = pickup_start d, out_pickup_end = pickup_end d,
      out_image_url = Offer.image_url d, out_cuisine = Offer.cuisine d,
      out_tags = tags d, out_address = Offer.address d\<rparr>"

definition list_offers ::
  "(string \<Rightarrow> string \<Rightarrow> bool) \<Rightarrow> io \<Rightarrow> 'p store option
     \<Rightarrow> string option \<Rightarrow> string option \<Rightarrow> string option \<Rightarrow> error + 'p OfferOut list" where
  "list_offers rx e db city' cuisine' q =
     (case get_documents_offer rx e db (list_filter city' cuisine' q) 100 of
        Inl err \<Rightarrow> Inl err
      | Inr docs \<Rightarrow> Inr (map to_OfferOut docs))"

text \<open>\<^verbatim>\<open>get_offer\<close>: the document found, its \<^verbatim>\<open>_id\<close> replaced by the string
  \<^verbatim>\<open>id\<close>; the answer is that string, the schema's fields and the timestamp.\<close>

definition get_offer ::
  "io \<Rightarrow> 'p store option \<Rightarrow> string \<Rightarrow> error + (string \<times> 'p Offer \<times> int option)" where
  "get_offer e db oi =
     (case db of
        None \<Rightarrow> Inl (HTTPException 500 ''Database not configured'')
      | Some st \<Rightarrow>
          (case ObjectId oi of
             Inl err \<Rightarrow> Inl err
           | Inr i \<Rightarrow>
               (case find_one e st i of
                  Inl err \<Rightarrow> Inl err
                | Inr None \<Rightarrow> Inl (HTTPException 404 ''Offer not found'')
                | Inr (Some doc) \<Rightarrow>
                    Inr (str_oid (oid doc), Offer.truncate doc, updated_at doc))))"

text \<open>\<^verbatim>\<open>reserve\<close>, statement by statement: the handle, the lookup, the two checks,
  the construction of the record, its insertion, the decrement. An exception leaves
  the store as the calls before it made it. The decrement works on the store that the
  insertion returns; the insertion answers only on a configured store, so the branch
  for \<open>None\<close> after it is never taken.\<close>

definition reserve ::
  "io \<Rightarrow> 'p store option \<Rightarrow> ReservationIn \<Rightarrow> (error + string \<times> string) \<times> 'p store option" where
  "reserve e db res =
     (case db of
        None \<Rightarrow> (Inl (HTTPException 500 ''Database not configured''), db)
      | Some st \<Rightarrow>
          (case ObjectId (offer_id res) of
             Inl err \<Rightarrow> (Inl err, db)
           | Inr i \<Rightarrow>
               (case find_one e st i of
                  Inl err \<Rightarrow> (Inl err, db)
                | Inr None \<Rightarrow> (Inl (HTTPException 404 ''Offer not found''), db)
                | Inr (Some offer) \<Rightarrow>
                    if Offer.quantity offer < ReservationIn.quantity res
                    then (Inl (HTTPException 400 ''Not enough quantity''), db)
                    else
                      (case Reservation_init (offer_id res) (customer_name res)
                              (customer_phone res) (ReservationIn.quantity res) ''reserved'' of
                         Inl err \<Rightarrow> (Inl err, db)
                       | Inr reservation \<Rightarrow>
                           (case create_document_reservation e db reservation of
                              (Inl err, db1) \<Rightarrow> (Inl err, db1)
                            | (Inr reservation_id, db1) \<Rightarrow>
                                (case db1 of
                                   None \<Rightarrow> (Inl StoreUnavailableError, db1)
                                 | Some st1 \<Rightarrow>
                                     (case ObjectId (offer_id res) of
                                        Inl err \<Rightarrow> (Inl err, db1)
                                      | Inr j \<Rightarrow>
                                          (case update_one e st1 j
                                                  (- ReservationIn.quantity res) (utcnow e) of
                                             Inl err \<Rightarrow> (Inl err, db1)
                                           | Inr st2 \<Rightarrow>
                                               (Inr (reservation_id, ''Reserved''),
                                                Some st2)))))))))"

section \<open>The reservation, one store call at a time\<close>

text \<open>
  Request handlers run side by side against one store, so between two store calls of
  one \<^verbatim>\<open>reserve\<close> another request's call may take place. A task is where a
  running \<^verbatim>\<open>reserve\<close> stands: before \<^verbatim>\<open>find_one\<close>, before
  \<^verbatim>\<open>create_document\<close> (the checks passed on the offer as it was read), before
  \<^verbatim>\<open>update_one\<close>, or done. A step is one store call and the statements up to
  the next.
\<close>

datatype task =
    Lookup ReservationIn
  | Commit_insert ReservationIn Reservation
  | Commit_update ReservationIn string
  | Finished "error + string \<times> string"

definition reserve_step :: "io \<Rightarrow> 'p store option \<Rightarrow> task \<Rightarrow> task \<times> 'p store option" where
  "reserve_step e db t =
     (case t of
        Lookup res \<Rightarrow>
          (case db of
             None \<Rightarrow> (Finished (Inl (HTTPException 500 ''Database not configured'')), db)
           | Some st \<Rightarrow>
               (case ObjectId (offer_id res) of
                  Inl err \<Rightarrow> (Finished (Inl err), db)
                | Inr i \<Rightarrow>
                    (case find_one e st i of
                       Inl err \<Rightarrow> (Finished (Inl err), db)
                     | Inr None \<Rightarrow> (Finished (Inl (HTTPException 404 ''Offer not found'')), db)
                     | Inr (Some offer) \<Rightarrow>
                         if Offer.quantity offer < ReservationIn.quantity res
                         then (Finished (Inl (HTTPException 400 ''Not enough quantity'')), db)
                         else
                           (case Reservation_init (offer_id res) (customer_name res)
                                   (customer_phone res) (ReservationIn.quantity res)
                                   ''reserved'' of
                              Inl err \<Rightarrow> (Finished (Inl err), db)
                            | Inr reservation \<Rightarrow> (Commit_insert res reservation, db)))))
      | Commit_insert res reservation \<Rightarrow>
          (case create_document_reservation e db reservation of
             (Inl err, db1) \<Rightarrow> (Finished (Inl err), db1)
           | (Inr reservation_id, db1) \<Rightarrow> (Commit_update res reservation_id, db1))
      | Commit_update res reservation_id \<Rightarrow>
          (case db of
             None \<Rightarrow> (Finished (Inl StoreUnavailableError), db)
           | Some st1 \<Rightarrow>
               (case ObjectId (offer_id res) of
                  Inl err \<Rightarrow> (Finished (Inl err), db)
                | Inr j \<Rightarrow>
                    (case update_one e st1 j (- ReservationIn.quantity res) (utcnow e) of
                       Inl err \<Rightarrow> (Finished (Inl err), db)
                     | Inr st2 \<Rightarrow> (Finished (Inr (reservation_id, ''Reserved'')), Some st2))))
      | Finished r \<Rightarrow> (t, db))"

text \<open>A schedule names, step by step, the task that moves next.\<close>

fun interleave ::
  "(io \<times> task) list \<Rightarrow> 'p store option \<Rightarrow> nat list \<Rightarrow> (io \<times> task) list \<times> 'p store option" where
  "interleave ts db [] = (ts, db)"
| "interleave ts db (k # ks) =
     (if k < length ts
      then (case reserve_step (fst (ts ! k)) db (snd (ts ! k)) of
              (t, db1) \<Rightarrow> interleave (ts[k := (fst (ts ! k), t)]) db1 ks)
      else interleave ts db ks)"

section \<open>Sequences of requests\<close>

text \<open>Reservation requests served one after the other, each to its end.\<close>

fun reserve_all :: "'p store option \<Rightarrow> (io \<times> ReservationIn) list \<Rightarrow> 'p store option" where
  "reserve_all db [] = db"
| "reserve_all db ((e, res) # rs) = reserve_all (snd (reserve e db res)) rs"

text \<open>
  The requests that reach a handler, with what each takes from its surroundings. The
  HTTP layer answers a body that fails its schema itself, so \<^verbatim>\<open>create_offer\<close> only
  runs on a valid \<^verbatim>\<open>Offer\<close>; \<^verbatim>\<open>ReservationIn\<close> and \<^verbatim>\<open>Vendor\<close> bound
  nothing. \<open>handle\<close> is the store after the request; the two reading handlers
  write nothing.
\<close>

datatype 'p request =
    CreateVendor io Vendor
  | CreateOffer io "'p Offer" "string option"
  | ListOffers io "string option" "string option" "string option"
  | GetOffer io string
  | Reserve io ReservationIn

fun handle ::
  "string option \<Rightarrow> ('p::{zero,linorder}) store option \<Rightarrow> 'p request \<Rightarrow> 'p store option" where
  "handle env_code db (CreateVendor e vendor) = snd (create_vendor e db vendor)"
| "handle env_code db (CreateOffer e offer admin_code) =
     (if Offer_valid offer then snd (create_offer env_code e db offer admin_code) else db)"
| "handle env_code db (ListOffers e city' cuisine' q) = db"
| "handle env_code db (GetOffer e oi) = db"
| "handle env_code db (Reserve e res) = snd (reserve e db res)"

definition run ::
  "string option \<Rightarrow> ('p::{zero,linorder}) store option \<Rightarrow> 'p request list \<Rightarrow> 'p store option" where
  "run env_code db reqs = foldl (handle env_code) db reqs"

text \<open>The offers a request creates, each with its id and the quantity it was created
  with, and the log of them along a sequence of requests.\<close>

fun created_by ::
  "string option \<Rightarrow> ('p::{zero,linorder}) store option \<Rightarrow> 'p request \<Rightarrow> (oid \<times> int) list" where
  "created_by env_code db (CreateOffer e offer admin_code) =
     (if Offer_valid offer
      then (case fst (create_offer env_code e db offer admin_code) of
              Inl err \<Rightarrow> []
            | Inr i \<Rightarrow> [(inserted_id e, Offer.quantity offer)])
      else [])"
| "created_by env_code db r = []"

fun created ::
  "string option \<Rightarrow> ('p::{zero,linorder}) store option \<Rightarrow> 'p request list
     \<Rightarrow> (oid \<times> int) list" where
  "created env_code db [] = []"
| "created env_code db (r # rs) =
     created_by env_code db r @ created env_code (handle env_code db r) rs"

text \<open>A reservation whose store raises at the decrement.\<close>

fun decrement_fails :: "'p request \<Rightarrow> bool" where
  "decrement_fails (Reserve e res) = (fault e = Some UpdateOne)"
| "decrement_fails r = False"

section \<open>What the store holds\<close>

definition offers_of :: "'p store option \<Rightarrow> 'p offer_doc list" where
  "offers_of db = (case db of None \<Rightarrow> [] | Some st \<Rightarrow> db_offer st)"

definition reservations_of :: "'p store option \<Rightarrow> reservation_doc list" where
  "reservations_of db = (case db of None \<Rightarrow> [] | Some st \<Rightarrow> db_reservation st)"

definition quantities_nonneg :: "'p store option \<Rightarrow> bool" where
  "quantities_nonneg db = list_all (\<lambda>d. 0 \<le> Offer.quantity d) (offers_of db)"

text \<open>The units of the offer \<open>i\<close> that are reserved: the quantities of the
  reservations whose \<^verbatim>\<open>offer_id\<close> reads as \<open>i\<close> and that are not cancelled.\<close>

definition reserved :: "'p store option \<Rightarrow> oid \<Rightarrow> int" where
  "reserved db i =
     sum_list (map ReservationIn.quantity
       (filter (\<lambda>r. status r \<noteq> ''cancelled'' \<and> ObjectId (offer_id r) = Inr i)
          (reservations_of db)))"

text \<open>For each offer, in the store's order: its id, and its remaining quantity plus
  its reserved units.\<close>

definition units :: "'p store option \<Rightarrow> (oid \<times> int) list" where
  "units db = map (\<lambda>d. (oid d, Offer.quantity d + reserved db (oid d))) (offers_of db)"

text \<open>The store's unique index on the offers' \<^verbatim>\<open>_id\<close>.\<close>

definition unique_ids :: "'p store option \<Rightarrow> bool" where
  "unique_ids db = distinct (map oid (offers_of db))"

text \<open>Every reservation names an offer that the store holds.\<close>

definition references_exist :: "'p store option \<Rightarrow> bool" where
  "references_exist db =
     list_all (\<lambda>r. case ObjectId (offer_id r) of
                     Inl err \<Rightarrow> False
                   | Inr i \<Rightarrow> i \<in> set (map oid (offers_of db)))
       (reservations_of db)"

text \<open>The three together: what the requests, served one at a time by a store that
  answers, keep true of the store.\<close>

definition coherent :: "'p store option \<Rightarrow> bool" where
  "coherent db = (unique_ids db \<and> references_exist db \<and> quantities_nonneg db)"

section \<open>A store for the examples\<close>

definition bag :: "int \<Rightarrow> bool \<Rightarrow> int Offer" where
  "bag n a =
     \<lparr>title = ''Surprise Bag'', description = None, vendor_name = ''Furra'',
      Offer.city = ''Tirana'', Offer.address = None, Offer.cuisine = None, tags = [],
      original_price = 10, price = 4, Offer.quantity = n, pickup_start = 0,
      pickup_end = 1, Offer.image_url = None, Offer.active = a\<rparr>"

definition id_a :: string where
  "id_a = ''aaaaaaaaaaaaaaaaaaaaaaaa''"

definition id_b :: string where
  "id_b = ''bbbbbbbbbbbbbbbbbbbbbbbb''"

definition id_c :: string where
  "id_c = ''cccccccccccccccccccccccc''"

definition id_d :: string where
  "id_d = ''dddddddddddddddddddddddd''"

definition store_with :: "int \<Rightarrow> bool \<Rightarrow> int store" where
  "store_with n a =
     \<lparr>db_vendor = [],
      db_offer = [Offer.extend (bag n a) (offer_doc.fields id_a None)],
      db_reservation = []\<rparr>"

definition request_for :: "int \<Rightarrow> ReservationIn" where
  "request_for n =
     \<lparr>offer_id = id_a, customer_name = ''Ana'', customer_phone = ''069'',
      ReservationIn.quantity = n\<rparr>"

definition calm :: "oid \<Rightarrow> io" where
  "calm i = \<lparr>inserted_id = i, utcnow = 7, fault = None\<rparr>"

definition failing :: "oid \<Rightarrow> store_call \<Rightarrow> io" where
  "failing i c = \<lparr>inserted_id = i, utcnow = 7, fault = Some c\<rparr>"

definition empty_store :: "int store" where
  "empty_store = \<lparr>db_vendor = [], db_offer = [], db_reservation = []\<rparr>"

text \<open>Three offers: one in stock, one sold out, one in stock and inactive.\<close>

definition shelf :: "int store" where
  "shelf =
     \<lparr>db_vendor = [],
      db_offer = [Offer.extend (bag 3 True) (offer_doc.fields id_a None),
                  Offer.extend (bag 0 True) (offer_doc.fields id_b None),
                  Offer.extend (bag 4 False) (offer_doc.fields id_c None)],
      db_reservation = []\<rparr>"

section \<open>Facts about the examples\<close>

lemma ObjectId_id_a: "ObjectId id_a = Inr id_a"
  by (simp add: ObjectId_def well_formed_id_def hexdigit_def lower_hex_def id_a_def)

lemmas example_defs = store_with_def bag_def request_for_def calm_def failing_def
  Offer.extend_def offer_doc.fields_def Reservation.extend_def reservation_doc.fields_def

lemma find_one_example:
  "find_one (calm i) (store_with n a) id_a
     = Inr (Some (Offer.extend (bag n a) (offer_doc.fields id_a None)))"
  by (simp add: find_one_def example_defs)

lemma create_document_reservation_answers:
  "create_document_reservation e db r = (Inr i, db1) \<Longrightarrow> db1 \<noteq> None"
  by (auto simp add: create_document_reservation_def split: option.splits if_splits)

section \<open>Reserving more than is left\<close>

text \<open>
  C3. When the requested quantity is strictly greater than the quantity of the offer
  that the lookup found, \<^verbatim>\<open>reserve\<close> raises the HTTP 400 ``Not enough quantity''
  and the store is left exactly as it was: no offer is decremented and no reservation
  is inserted.
\<close>

theorem reserve_insufficient_unchanged:
  assumes "ObjectId (offer_id res) = Inr i"
    and "find_one e st i = Inr (Some offer)"
    and "Offer.quantity offer < ReservationIn.quantity res"
  shows "reserve e (Some st) res = (Inl (HTTPException 400 ''Not enough quantity''), Some st)
    \<and> status_code (HTTPException 400 ''Not enough quantity'') = 400"
  using assms by (simp add: reserve_def)

theorem reserve_insufficient_unchanged_witness:
  "ObjectId (offer_id (request_for 3)) = Inr id_a
   \<and> find_one (calm id_b) (store_with 2 True) id_a
       = Inr (Some (Offer.extend (bag 2 True) (offer_doc.fields id_a None)))
   \<and> Offer.quantity (Offer.extend (bag 2 True) (offer_doc.fields id_a None))
       < ReservationIn.quantity (request_for 3)
   \<and> reserve (calm id_b) (Some (store_with 2 True)) (request_for 3)
       = (Inl (HTTPException 400 ''Not enough quantity''), Some (store_with 2 True))
   \<and> status_code (HTTPException 400 ''Not enough quantity'') = 400"
proof -
  have 1: "ObjectId (offer_id (request_for 3)) = Inr id_a"
    by (simp add: request_for_def ObjectId_id_a)
  have 2: "find_one (calm id_b) (store_with 2 True) id_a
             = Inr (Some (Offer.extend (bag 2 True) (offer_doc.fields id_a None)))"
    by (rule find_one_example)
  have 3: "Offer.quantity (Offer.extend (bag 2 True) (offer_doc.fields id_a None))
             < ReservationIn.quantity (request_for 3)"
    by (simp add: example_defs)
  from reserve_insufficient_unchanged [OF 1 2 3] 1 2 3 show ?thesis by simp
qed

section \<open>The scenario of the spec\<close>

text \<open>
  C5. An offer with quantity 5. Reserving 3 succeeds, the quantity becomes 2 and the
  reservation stored has the status \<^verbatim>\<open>reserved\<close>; reserving 3 again raises the
  HTTP 400 ``Not enough quantity'' and the store, so the quantity 2, is unchanged;
  reserving 2 then succeeds and the quantity becomes 0.
\<close>

theorem scenario_five_three_three_two:
  "(case reserve (calm id_b) (Some (store_with 5 True)) (request_for 3) of
      (r1, db1) \<Rightarrow>
        (case reserve (calm id_c) db1 (request_for 3) of
           (r2, db2) \<Rightarrow>
             (case reserve (calm id_d) db2 (request_for 2) of
                (r3, db3) \<Rightarrow>
                  r1 = Inr (id_b, ''Reserved'')
                  \<and> map Offer.quantity (offers_of db1) = [2]
                  \<and> map status (reservations_of db1) = [''reserved'']
                  \<and> r2 = Inl (HTTPException 400 ''Not enough quantity'')
                  \<and> db2 = db1
                  \<and> map Offer.quantity (offers_of db2) = [2]
                  \<and> r3 = Inr (id_d, ''Reserved'')
                  \<and> map Offer.quantity (offers_of db3) = [0])))"
  by code_simp

section \<open>Creating an offer priced above its original price\<close>




section \<open>Fetching an offer by its id\<close>

text \<open>
  C8 at its failing input: the store holds one offer, inactive; \<^verbatim>\<open>get_offer\<close> on
  its id answers with the offer, where the claim asks for the 404. The lookup is by
  \<^verbatim>\<open>_id\<close> alone; the listing is the handler that asks for \<^verbatim>\<open>active\<close>.
\<close>

theorem get_offer_inactive_returned:
  "\<not> Offer.active (bag 5 False)
   \<and> offers_of (Some (store_with 5 False))
       = [Offer.extend (bag 5 False) (offer_doc.fields id_a None)]
   \<and> get_offer (calm id_b) (Some (store_with 5 False)) id_a = Inr (id_a, bag 5 False, None)"
  by (simp add: get_offer_def ObjectId_id_a find_one_example str_oid_def offers_of_def)
     (simp add: store_with_def bag_def Offer.defs offer_doc.defs)

section \<open>Ids that are not object ids\<close>

lemma get_offer_404:
  assumes "get_offer e db oj = Inl err" and "status_code err = 404"
  shows "well_formed_id oj
    \<and> (\<exists>st1. db = Some st1 \<and> find (\<lambda>d. oid d = map lower_hex oj) (db_offer st1) = None)"
  using assms
  by (auto simp add: get_offer_def ObjectId_def find_one_def split: option.splits if_splits)

lemma reserve_404:
  assumes "fst (reserve e db r) = Inl err" and "status_code err = 404"
  shows "well_formed_id (offer_id r)
    \<and> (\<exists>st1. db = Some st1
          \<and> find (\<lambda>d. oid d = map lower_hex (offer_id r)) (db_offer st1) = None)"
  using assms
  by (auto simp add: reserve_def ObjectId_def find_one_def Reservation_init_def
        create_document_reservation_def update_one_def split: option.splits if_splits)

text \<open>
  C10. For an id string that is not twenty-four hexadecimal digits, with the store
  configured, \<^verbatim>\<open>get_offer\<close> and \<^verbatim>\<open>reserve\<close> raise \<^verbatim>\<open>InvalidId\<close>, which is
  unhandled (status 500) and leaves the store as it was; whatever the store handle,
  the answer to such an id is an error of status 500, never the 404. And a 404 from
  either handler, on any id, means that the id is well formed and that no offer has
  it.
\<close>

theorem malformed_id_raises_InvalidId:
  assumes "\<not> well_formed_id oi"
  shows "get_offer e (Some st) oi = Inl InvalidId
    \<and> reserve e (Some st) (res\<lparr>offer_id := oi\<rparr>) = (Inl InvalidId, Some st)
    \<and> status_code InvalidId = 500
    \<and> (\<forall>db. \<exists>err. get_offer e db oi = Inl err \<and> status_code err = 500)
    \<and> (\<forall>db. \<exists>err. fst (reserve e db (res\<lparr>offer_id := oi\<rparr>)) = Inl err
                  \<and> status_code err = 500)
    \<and> (\<forall>db oj err. get_offer e db oj = Inl err \<and> status_code err = 404 \<longrightarrow>
          well_formed_id oj
          \<and> (\<exists>st1. db = Some st1
                \<and> find (\<lambda>d. oid d = map lower_hex oj) (db_offer st1) = None))
    \<and> (\<forall>db r err. fst (reserve e db r) = Inl err \<and> status_code err = 404 \<longrightarrow>
          well_formed_id (offer_id r)
          \<and> (\<exists>st1. db = Some st1
                \<and> find (\<lambda>d. oid d = map lower_hex (offer_id r)) (db_offer st1) = None))"
proof -
  have 1: "get_offer e (Some st) oi = Inl InvalidId"
    using assms by (simp add: get_offer_def ObjectId_def)
  have 2: "reserve e (Some st) (res\<lparr>offer_id := oi\<rparr>) = (Inl InvalidId, Some st)"
    using assms by (simp add: reserve_def ObjectId_def)
  have 3: "\<exists>err. get_offer e db oi = Inl err \<and> status_code err = 500" for db
    using assms by (cases db) (simp_all add: get_offer_def ObjectId_def)
  have 4: "\<exists>err. fst (reserve e db (res\<lparr>offer_id := oi\<rparr>)) = Inl err \<and> status_code err = 500"
    for db
    using assms by (cases db) (simp_all add: reserve_def ObjectId_def)
  have 5: "well_formed_id oj
      \<and> (\<exists>st1. db = Some st1 \<and> find (\<lambda>d. oid d = map lower_hex oj) (db_offer st1) = None)"
    if "get_offer e db oj = Inl err \<and> status_code err = 404" for db oj err
    using that get_offer_404 [of e db oj err] by simp
  have 6: "well_formed_id (offer_id r)
      \<and> (\<exists>st1. db = Some st1
            \<and> find (\<lambda>d. oid d = map lower_hex (offer_id r)) (db_offer st1) = None)"
    if "fst (reserve e db r) = Inl err \<and> status_code err = 404" for db r err
    using that reserve_404 [of e db r err] by simp
  show ?thesis
    apply (intro conjI allI impI)
           apply (rule 1)
          apply (rule 2)
         apply simp
        apply (rule 3)
       apply (rule 4)
      apply (erule 5 [THEN conjunct1])
     apply (erule 5 [THEN conjunct2])
    apply (erule 6 [THEN conjunct1])
    apply (erule 6 [THEN conjunct2])
    done
qed

theorem malformed_id_raises_InvalidId_witness:
  "\<not> well_formed_id ''42''
   \<and> get_offer (calm id_b) (Some (store_with 5 True)) ''42'' = Inl InvalidId
   \<and> reserve (calm id_b) (Some (store_with 5 True)) ((request_for 1)\<lparr>offer_id := ''42''\<rparr>)
       = (Inl InvalidId, Some (store_with 5 True))"
proof -
  have 1: "\<not> well_formed_id ''42''" by (simp add: well_formed_id_def)
  note t = malformed_id_raises_InvalidId
             [OF 1, of "calm id_b" "store_with 5 True" "request_for 1"]
  from t have 2: "get_offer (calm id_b) (Some (store_with 5 True)) ''42'' = Inl InvalidId"
    by (rule conjunct1)
  from t have 3: "reserve (calm id_b) (Some (store_with 5 True))
      ((request_for 1)\<lparr>offer_id := ''42''\<rparr>) = (Inl InvalidId, Some (store_with 5 True))"
    by (rule conjunct1 [OF conjunct2])
  from 1 2 3 show ?thesis by (intro conjI)
qed

section \<open>General facts about lists and the store calls\<close>

lemma find_in_set: "find P xs = Some x \<Longrightarrow> x \<in> set xs"
  by (induction xs) (auto split: if_splits)

lemma find_holds: "find P xs = Some x \<Longrightarrow> P x"
  by (induction xs) (auto split: if_splits)

lemma update_first_list_all:
  "list_all Q xs \<Longrightarrow> (\<And>x. x \<in> set xs \<Longrightarrow> P x \<Longrightarrow> find P xs = Some x \<Longrightarrow> Q (f x))
     \<Longrightarrow> list_all Q (update_first P f xs)"
  by (induction xs) auto

lemma update_first_distinct:
  "distinct (map k xs) \<Longrightarrow>
   update_first (\<lambda>d. k d = i) f xs = map (\<lambda>d. if k d = i then f d else d) xs"
proof (induction xs)
  case Nil
  then show ?case by simp
next
  case (Cons x xs)
  show ?case
  proof (cases "k x = i")
    case True
    have "\<forall>d \<in> set xs. k d \<noteq> i"
      using Cons.prems True by (auto simp add: image_iff)
    then have "map (\<lambda>d. if k d = i then f d else d) xs = xs"
      by (intro map_idI) auto
    with True show ?thesis by simp
  next
    case False
    with Cons show ?thesis by simp
  qed
qed

section \<open>Requests for nothing or less\<close>



section \<open>A store that fails during the commit\<close>

text \<open>
  C2, as the spec states it, fails: when the store raises at the decrement, the
  reservation record has already been inserted and stays, while the offer keeps its
  quantity.
\<close>

theorem reserve_commit_counterexample:
  "(case reserve (failing id_b UpdateOne) (Some (store_with 5 True)) (request_for 3) of
      (r, db1) \<Rightarrow>
        r = Inl StoreUnavailableError
        \<and> map Offer.quantity (offers_of db1) = [5]
        \<and> map ReservationIn.quantity (reservations_of db1) = [3]
        \<and> map status (reservations_of db1) = [''reserved'']
        \<and> db1 \<noteq> Some (store_with 5 True))"
  by code_simp

text \<open>
  C2, amended. After the lookup and the validation have succeeded: if the store
  raises at the insertion of the reservation record, the store is as it was before the
  request; if it raises at the decrement (the record's id being new), the store is the
  one before the request with the reservation record, of status \<^verbatim>\<open>reserved\<close>,
  added and every offer unchanged.
\<close>

theorem reserve_commit_failure:
  assumes "ObjectId (offer_id res) = Inr i"
    and "find_one e st i = Inr (Some offer)"
    and "\<not> Offer.quantity offer < ReservationIn.quantity res"
    and "1 \<le> ReservationIn.quantity res"
  shows "(fault e = Some InsertOne \<longrightarrow>
            reserve e (Some st) res = (Inl StoreUnavailableError, Some st))
    \<and> (fault e = Some UpdateOne
          \<and> inserted_id e \<notin> set (map reservation_oid (db_reservation st)) \<longrightarrow>
            reserve e (Some st) res =
              (Inl StoreUnavailableError,
               Some (st\<lparr>db_reservation := db_reservation st @
                 [\<lparr>offer_id = offer_id res, customer_name = customer_name res,
                   customer_phone = customer_phone res,
                   ReservationIn.quantity = ReservationIn.quantity res,
                   status = ''reserved'', reservation_oid = inserted_id e\<rparr>]\<rparr>)))"
  using assms
  by (simp add: reserve_def Reservation_init_def create_document_reservation_def
        update_one_def Reservation.extend_def reservation_doc.fields_def)

theorem reserve_commit_failure_witness:
  "reserve (failing id_b InsertOne) (Some (store_with 5 True)) (request_for 3)
     = (Inl StoreUnavailableError, Some (store_with 5 True))
   \<and> reserve (failing id_b UpdateOne) (Some (store_with 5 True)) (request_for 3)
     = (Inl StoreUnavailableError,
        Some ((store_with 5 True)\<lparr>db_reservation :=
          [\<lparr>offer_id = id_a, customer_name = ''Ana'', customer_phone = ''069'',
            ReservationIn.quantity = 3, status = ''reserved'', reservation_oid = id_b\<rparr>]\<rparr>))"
proof -
  have 1: "ObjectId (offer_id (request_for 3)) = Inr id_a"
    by (simp add: request_for_def ObjectId_id_a)
  have 2: "find_one (failing id_b InsertOne) (store_with 5 True) id_a
             = Inr (Some (Offer.extend (bag 5 True) (offer_doc.fields id_a None)))"
    by (simp add: find_one_def example_defs)
  have 3: "find_one (failing id_b UpdateOne) (store_with 5 True) id_a
             = Inr (Some (Offer.extend (bag 5 True) (offer_doc.fields id_a None)))"
    by (simp add: find_one_def example_defs)
  have 4: "\<not> Offer.quantity (Offer.extend (bag 5 True) (offer_doc.fields id_a None))
             < ReservationIn.quantity (request_for 3)"
    by (simp add: example_defs)
  have 5: "1 \<le> ReservationIn.quantity (request_for 3)"
    by (simp add: example_defs)
  from reserve_commit_failure [OF 1 2 4 5] reserve_commit_failure [OF 1 3 4 5]
  show ?thesis by (simp add: example_defs)
qed

section \<open>The quantity never goes negative, one request at a time\<close>

lemma reserve_nonneg:
  assumes "quantities_nonneg db"
  shows "quantities_nonneg (snd (reserve e db res))"
proof (cases db)
  case None
  then show ?thesis using assms by (simp add: reserve_def)
next
  case (Some st)
  have upd: "list_all (\<lambda>d. 0 \<le> Offer.quantity d)
      (update_first (\<lambda>d. oid d = i)
         (\<lambda>d. d\<lparr>Offer.quantity := Offer.quantity d + - ReservationIn.quantity res,
                updated_at := Some t\<rparr>) (db_offer st))"
    if "find (\<lambda>d. oid d = i) (db_offer st) = Some offer"
      and "\<not> Offer.quantity offer < ReservationIn.quantity res" for i offer t
    using assms that unfolding Some quantities_nonneg_def offers_of_def
    by (intro update_first_list_all) auto
  show ?thesis
    using assms upd unfolding Some
    by (auto simp add: reserve_def find_one_def Reservation_init_def
          create_document_reservation_def update_one_def quantities_nonneg_def offers_of_def
          split: sum.splits option.splits if_splits)
qed

text \<open>The three steps of a task, one after the other with nothing in between, are
  \<^verbatim>\<open>reserve\<close>.\<close>

lemma reserve_by_steps:
  "(case reserve_step e db (Lookup res) of
      (t1, db1) \<Rightarrow>
        (case reserve_step e db1 t1 of
           (t2, db2) \<Rightarrow> reserve_step e db2 t2))
   = (Finished (fst (reserve e db res)), snd (reserve e db res))"
  by (auto simp add: reserve_step_def reserve_def create_document_reservation_def
        split: option.splits sum.splits prod.splits)

text \<open>
  C1, as the spec states it, fails for requests that run at the same time. An offer
  of quantity 5 and two requests, for 3 and for 4 units: both look the offer up before
  either writes, both pass the test against the quantity 5, both insert their record
  and both decrement. Both succeed and the quantity is - 2.
\<close>

theorem interleaved_reservations_oversell:
  "quantities_nonneg (Some (store_with 5 True))
   \<and> (case interleave [(calm id_b, Lookup (request_for 3)), (calm id_c, Lookup (request_for 4))]
             (Some (store_with 5 True)) [0, 1, 0, 1, 0, 1] of
        (ts, db1) \<Rightarrow>
          map snd ts = [Finished (Inr (id_b, ''Reserved'')), Finished (Inr (id_c, ''Reserved''))]
          \<and> map Offer.quantity (offers_of db1) = [- 2]
          \<and> \<not> quantities_nonneg db1)"
  by code_simp

text \<open>
  C1, amended. For reservation requests served one at a time, each to its end before
  the next begins: if no offer's quantity is negative before the requests, none is
  after them, whatever the requests, the ids and the failures of the store.
\<close>

theorem reserve_all_nonneg:
  assumes "quantities_nonneg db"
  shows "quantities_nonneg (reserve_all db rs)"
  using assms
proof (induction rs arbitrary: db)
  case Nil
  then show ?case by simp
next
  case (Cons a rs)
  obtain e res where a: "a = (e, res)" by (cases a)
  from Cons.prems have "quantities_nonneg (snd (reserve e db res))"
    by (rule reserve_nonneg)
  then show ?case unfolding a by (simp add: Cons.IH)
qed

theorem reserve_all_nonneg_witness:
  "quantities_nonneg (Some (store_with 5 True))
   \<and> quantities_nonneg (reserve_all (Some (store_with 5 True))
        [(calm id_b, request_for 3), (calm id_c, request_for 4), (calm id_d, request_for 2)])
   \<and> map Offer.quantity (offers_of (reserve_all (Some (store_with 5 True))
        [(calm id_b, request_for 3), (calm id_c, request_for 4), (calm id_d, request_for 2)]))
       = [0]"
proof -
  have 1: "quantities_nonneg (Some (store_with 5 True))"
    by (simp add: quantities_nonneg_def offers_of_def example_defs)
  have 2: "map Offer.quantity (offers_of (reserve_all (Some (store_with 5 True))
        [(calm id_b, request_for 3), (calm id_c, request_for 4), (calm id_d, request_for 2)]))
       = [0]"
    by code_simp
  note t = reserve_all_nonneg [OF 1,
    of "[(calm id_b, request_for 3), (calm id_c, request_for 4), (calm id_d, request_for 2)]"]
  from 1 t 2 show ?thesis by (intro conjI)
qed

section \<open>Only active offers in stock are listed\<close>

lemma matches_list_filter:
  "matches rx (list_filter a b q) d \<Longrightarrow> Offer.active d \<and> 0 < Offer.quantity d"
  by (simp add: matches_def list_filter_def)

lemma list_offers_Inr:
  assumes "list_offers rx e db a b q = Inr outs"
  shows "\<exists>st. db = Some st \<and> fault e \<noteq> Some Find
    \<and> outs = map to_OfferOut (take 100 (filter (matches rx (list_filter a b q)) (db_offer st)))"
  using assms
  by (auto simp add: list_offers_def get_documents_offer_def
        split: option.splits if_splits sum.splits)

text \<open>
  C7. Whatever the city, the cuisine and the query, and whatever the matching of
  regular expressions: the listing answers when the store does, and every entry of
  its answer is a stored offer that is active and has a quantity above zero. In
  particular, with ids unique in the store, an offer whose quantity is zero (or less,
  or that is inactive) is not among the ids listed, though the store holds it.
\<close>

theorem list_offers_only_active_in_stock:
  "(fault e \<noteq> Some Find \<longrightarrow> (\<exists>outs. list_offers rx e (Some st) a b q = Inr outs))
   \<and> (\<forall>outs. list_offers rx e db a b q = Inr outs \<longrightarrow>
         (\<forall>out \<in> set outs. 0 < out_quantity out
             \<and> (\<exists>d \<in> set (offers_of db). out = to_OfferOut d \<and> Offer.active d
                    \<and> 0 < Offer.quantity d))
         \<and> (unique_ids db \<longrightarrow>
              (\<forall>d \<in> set (offers_of db). \<not> Offer.active d \<or> Offer.quantity d \<le> 0 \<longrightarrow>
                  str_oid (oid d) \<notin> set (map id' outs))))"
proof (intro conjI allI impI)
  assume "fault e \<noteq> Some Find"
  then show "\<exists>outs. list_offers rx e (Some st) a b q = Inr outs"
    by (simp add: list_offers_def get_documents_offer_def)
next
  fix outs
  assume "list_offers rx e db a b q = Inr outs"
  then obtain st' where db: "db = Some st'"
    and outs: "outs = map to_OfferOut
        (take 100 (filter (matches rx (list_filter a b q)) (db_offer st')))"
    using list_offers_Inr by blast
  have sel: "d \<in> set (db_offer st') \<and> Offer.active d \<and> 0 < Offer.quantity d"
    if "d \<in> set (take 100 (filter (matches rx (list_filter a b q)) (db_offer st')))" for d
  proof -
    from that have "d \<in> set (filter (matches rx (list_filter a b q)) (db_offer st'))"
      by (rule in_set_takeD)
    then show ?thesis by (auto dest: matches_list_filter)
  qed
  show "\<forall>out \<in> set outs. 0 < out_quantity out
      \<and> (\<exists>d \<in> set (offers_of db). out = to_OfferOut d \<and> Offer.active d
             \<and> 0 < Offer.quantity d)"
  proof
    fix out assume "out \<in> set outs"
    then obtain d where d: "out = to_OfferOut d"
      "d \<in> set (take 100 (filter (matches rx (list_filter a b q)) (db_offer st')))"
      unfolding outs by auto
    from sel [OF d(2)] d(1) show "0 < out_quantity out
      \<and> (\<exists>d \<in> set (offers_of db). out = to_OfferOut d \<and> Offer.active d
             \<and> 0 < Offer.quantity d)"
      by (auto simp add: offers_of_def db to_OfferOut_def)
  qed
  show "\<forall>d \<in> set (offers_of db). \<not> Offer.active d \<or> Offer.quantity d \<le> 0 \<longrightarrow>
      str_oid (oid d) \<notin> set (map id' outs)" if u: "unique_ids db"
  proof (intro ballI impI notI)
    fix d
    assume d: "d \<in> set (offers_of db)" and bad: "\<not> Offer.active d \<or> Offer.quantity d \<le> 0"
      and "str_oid (oid d) \<in> set (map id' outs)"
    then obtain d' where d': "oid d' = oid d"
      "d' \<in> set (take 100 (filter (matches rx (list_filter a b q)) (db_offer st')))"
      unfolding outs by (auto simp add: to_OfferOut_def str_oid_def)
    from sel [OF d'(2)] have good: "d' \<in> set (db_offer st')" "Offer.active d'"
      "0 < Offer.quantity d'" by simp_all
    from u db have "distinct (map oid (db_offer st'))"
      by (simp add: unique_ids_def offers_of_def)
    with good(1) d d'(1) db have "d' = d"
      by (metis distinct_map inj_onD offers_of_def option.simps(5))
    with good bad show False by simp
  qed
qed

theorem list_offers_only_active_in_stock_witness:
  "unique_ids (Some shelf)
   \<and> map Offer.quantity (offers_of (Some shelf)) = [3, 0, 4]
   \<and> map Offer.active (offers_of (Some shelf)) = [True, True, False]
   \<and> map oid (offers_of (Some shelf)) = [id_a, id_b, id_c]
   \<and> list_offers (\<lambda>p t. True) (calm id_d) (Some shelf) None (Some ''bakery'') (Some ''bag'')
       = Inr []
   \<and> map id' (projr (list_offers (\<lambda>p t. True) (calm id_d) (Some shelf) None None (Some ''bag'')))
       = [id_a]
   \<and> str_oid id_b \<notin> set (map id'
        (projr (list_offers (\<lambda>p t. True) (calm id_d) (Some shelf) None None (Some ''bag''))))
   \<and> str_oid id_c \<notin> set (map id'
        (projr (list_offers (\<lambda>p t. True) (calm id_d) (Some shelf) None None (Some ''bag''))))"
proof -
  let ?l = "list_offers (\<lambda>p t. True) (calm id_d) (Some shelf) None None (Some ''bag'')"
  have u: "unique_ids (Some shelf)" by code_simp
  have o: "offers_of (Some shelf)
      = [Offer.extend (bag 3 True) (offer_doc.fields id_a None),
         Offer.extend (bag 0 True) (offer_doc.fields id_b None),
         Offer.extend (bag 4 False) (offer_doc.fields id_c None)]"
    by (simp add: offers_of_def shelf_def)
  have q: "map Offer.quantity (offers_of (Some shelf)) = [3, 0, 4]"
    and a: "map Offer.active (offers_of (Some shelf)) = [True, True, False]"
    and i: "map oid (offers_of (Some shelf)) = [id_a, id_b, id_c]"
    by (simp_all add: o example_defs)
  have e: "list_offers (\<lambda>p t. True) (calm id_d) (Some shelf) None (Some ''bakery'')
      (Some ''bag'') = Inr []"
    by code_simp
  have l: "map id' (projr ?l) = [id_a]" by code_simp
  have f: "fault (calm id_d) \<noteq> Some Find" by (simp add: calm_def)
  note t = list_offers_only_active_in_stock
    [of "calm id_d" "\<lambda>p t. True" shelf None None "Some ''bag''" "Some shelf"]
  from t f obtain outs where outs: "?l = Inr outs" by blast
  with t u have n: "\<forall>d \<in> set (offers_of (Some shelf)).
      \<not> Offer.active d \<or> Offer.quantity d \<le> 0 \<longrightarrow> str_oid (oid d) \<notin> set (map id' outs)"
    by blast
  have b: "str_oid id_b \<notin> set (map id' outs)"
    using n [unfolded o] by (simp add: example_defs)
  have c: "str_oid id_c \<notin> set (map id' outs)"
    using n [unfolded o] by (simp add: example_defs)
  from u q a i e l b c outs show ?thesis by simp
qed

section \<open>Conservation of units\<close>

text \<open>What a reservation does to the store: nothing, or (the lookup and the checks
  having passed) the record inserted and, unless the store raises at the decrement,
  the offer decremented.\<close>

lemma reserve_effect:
  "snd (reserve e db res) = db
   \<or> (\<exists>st i offer. db = Some st \<and> ObjectId (offer_id res) = Inr i
        \<and> find (\<lambda>d. oid d = i) (db_offer st) = Some offer
        \<and> \<not> Offer.quantity offer < ReservationIn.quantity res
        \<and> 1 \<le> ReservationIn.quantity res
        \<and> (fault e = Some UpdateOne
             \<or> snd (reserve e db res) =
                 Some (st\<lparr>db_reservation := db_reservation st @
                        [\<lparr>offer_id = offer_id res, customer_name = customer_name res,
                          customer_phone = customer_phone res,
                          ReservationIn.quantity = ReservationIn.quantity res,
                          status = ''reserved'', reservation_oid = inserted_id e\<rparr>],
                      db_offer := update_first (\<lambda>d. oid d = i)
                        (\<lambda>d. d\<lparr>Offer.quantity := Offer.quantity d - ReservationIn.quantity res,
                               updated_at := Some (utcnow e)\<rparr>) (db_offer st)\<rparr>)))"
  by (auto simp add: reserve_def find_one_def Reservation_init_def
        create_document_reservation_def update_one_def Reservation.extend_def
        reservation_doc.fields_def
        split: option.splits sum.splits if_splits)

lemma create_offer_effect:
  "(snd (create_offer c e db offer code) = db
      \<and> (\<exists>err. fst (create_offer c e db offer code) = Inl err))
   \<or> (\<exists>st. db = Some st \<and> inserted_id e \<notin> set (map oid (db_offer st))
        \<and> (\<exists>s. fst (create_offer c e db offer code) = Inr s)
        \<and> snd (create_offer c e db offer code) =
             Some (st\<lparr>db_offer := db_offer st @
               [Offer.extend offer (offer_doc.fields (inserted_id e) None)]\<rparr>))"
  by (auto simp add: create_offer_def create_document_offer_def Let_def split: option.splits)

lemma create_vendor_effect:
  "offers_of (snd (create_vendor e db v)) = offers_of db
   \<and> reservations_of (snd (create_vendor e db v)) = reservations_of db"
  by (auto simp add: create_vendor_def create_document_vendor_def offers_of_def
        reservations_of_def split: option.splits)

lemma same_collections:
  assumes "offers_of db1 = offers_of db" and "reservations_of db1 = reservations_of db"
  shows "coherent db1 = coherent db" and "units db1 = units db"
  unfolding coherent_def unique_ids_def references_exist_def quantities_nonneg_def
    units_def reserved_def assms
  by (rule refl)+

lemma reserved_unreferenced:
  assumes "references_exist db" and "i \<notin> set (map oid (offers_of db))"
  shows "reserved db i = 0"
proof -
  have "filter (\<lambda>r. status r \<noteq> ''cancelled'' \<and> ObjectId (offer_id r) = Inr i)
          (reservations_of db) = []"
    using assms by (auto simp add: references_exist_def list_all_iff filter_empty_conv)
  then show ?thesis by (simp add: reserved_def)
qed

lemma step_create_offer:
  assumes "coherent db" and "Offer_valid offer"
  shows "coherent (snd (create_offer c e db offer code))
    \<and> units (snd (create_offer c e db offer code))
        = units db @ created_by c db (CreateOffer e offer code)"
proof -
  from create_offer_effect [of c e db offer code]
  consider (same) err where "snd (create_offer c e db offer code) = db"
      "fst (create_offer c e db offer code) = Inl err"
    | (new) st s where "db = Some st" "inserted_id e \<notin> set (map oid (db_offer st))"
      "fst (create_offer c e db offer code) = Inr s"
      "snd (create_offer c e db offer code) =
         Some (st\<lparr>db_offer := db_offer st @
           [Offer.extend offer (offer_doc.fields (inserted_id e) None)]\<rparr>)"
    by blast
  then show ?thesis
  proof cases
    case same
    with assms show ?thesis by simp
  next
    case new
    let ?d = "Offer.extend offer (offer_doc.fields (inserted_id e) None)"
    let ?db1 = "Some (st\<lparr>db_offer := db_offer st @ [?d]\<rparr>)"
    have d: "oid ?d = inserted_id e" "Offer.quantity ?d = Offer.quantity offer"
      by (simp_all add: Offer.extend_def offer_doc.fields_def)
    have res: "reservations_of ?db1 = reservations_of db"
      and off: "offers_of ?db1 = offers_of db @ [?d]"
      by (simp_all add: new(1) reservations_of_def offers_of_def)
    have r: "reserved ?db1 j = reserved db j" for j
      by (simp add: reserved_def res)
    from assms(1) new(1,2) have zero: "reserved db (inserted_id e) = 0"
      by (intro reserved_unreferenced) (simp_all add: coherent_def offers_of_def)
    have "coherent ?db1"
      using assms new(1,2) d
      by (auto simp add: coherent_def unique_ids_def references_exist_def
            quantities_nonneg_def off res offers_of_def reservations_of_def Offer_valid_def
            list_all_iff split: sum.splits)
    moreover have "units ?db1 = units db @ [(inserted_id e, Offer.quantity offer)]"
      by (simp add: units_def off r d zero)
    ultimately show ?thesis using new(3,4) assms(2) by simp
  qed
qed

lemma step_reserve:
  assumes "coherent db" and "fault e \<noteq> Some UpdateOne"
  shows "coherent (snd (reserve e db res)) \<and> units (snd (reserve e db res)) = units db"
proof -
  let ?r = "\<lparr>offer_id = offer_id res, customer_name = customer_name res,
              customer_phone = customer_phone res,
              ReservationIn.quantity = ReservationIn.quantity res,
              status = ''reserved'', reservation_oid = inserted_id e\<rparr>"
  from reserve_effect [of e db res] assms(2)
  consider (same) "snd (reserve e db res) = db"
    | (booked) st i offer where "db = Some st" "ObjectId (offer_id res) = Inr i"
      "find (\<lambda>d. oid d = i) (db_offer st) = Some offer"
      "\<not> Offer.quantity offer < ReservationIn.quantity res"
      "snd (reserve e db res) =
         Some (st\<lparr>db_reservation := db_reservation st @ [?r],
               db_offer := update_first (\<lambda>d. oid d = i)
                 (\<lambda>d. d\<lparr>Offer.quantity := Offer.quantity d - ReservationIn.quantity res,
                        updated_at := Some (utcnow e)\<rparr>) (db_offer st)\<rparr>)"
    by blast
  then show ?thesis
  proof cases
    case same
    with assms show ?thesis by simp
  next
    case booked
    define q where "q = ReservationIn.quantity res"
    define g :: "'a offer_doc \<Rightarrow> 'a offer_doc" where
      "g = (\<lambda>d. if oid d = i
                 then d\<lparr>Offer.quantity := Offer.quantity d - q,
                         updated_at := Some (utcnow e)\<rparr>
                 else d)"
    have g_oid: "oid (g d) = oid d" for d by (simp add: g_def)
    have g_quantity: "Offer.quantity (g d)
        = (if oid d = i then Offer.quantity d - q else Offer.quantity d)" for d
      by (simp add: g_def)
    from assms(1) booked(1) have dist: "distinct (map oid (db_offer st))"
      by (simp add: coherent_def unique_ids_def offers_of_def)
    then have upd: "update_first (\<lambda>d. oid d = i)
        (\<lambda>d. d\<lparr>Offer.quantity := Offer.quantity d - q, updated_at := Some (utcnow e)\<rparr>)
        (db_offer st) = map g (db_offer st)"
      unfolding g_def by (rule update_first_distinct)
    define db1 where
      "db1 = Some (st\<lparr>db_reservation := db_reservation st @ [?r],
                      db_offer := map g (db_offer st)\<rparr>)"
    have db1: "snd (reserve e db res) = db1"
      using booked(5) upd by (simp add: db1_def q_def)
    have off: "offers_of db1 = map g (offers_of db)"
      and res: "reservations_of db1 = reservations_of db @ [?r]"
      by (simp_all add: db1_def booked(1) offers_of_def reservations_of_def)
    have ids: "map oid (offers_of db1) = map oid (offers_of db)"
      by (simp add: off g_oid)
    from booked(3) have mem: "offer \<in> set (db_offer st)" and key: "oid offer = i"
      by (auto dest: find_in_set find_holds)
    have uniq: "d = offer" if "d \<in> set (db_offer st)" "oid d = i" for d
      using dist mem key that by (metis distinct_map inj_onD)
    have res1: "reserved db1 j = reserved db j + (if j = i then q else 0)" for j
      using booked(2) by (auto simp add: reserved_def res q_def)
    have c1: "unique_ids db1"
      using assms(1) by (simp add: coherent_def unique_ids_def ids)
    have "i \<in> set (map oid (offers_of db))"
      using mem key by (auto simp add: offers_of_def booked(1))
    then have c2: "references_exist db1"
      using assms(1) booked(2)
      unfolding coherent_def references_exist_def ids res by simp
    have old: "offers_of db = db_offer st" by (simp add: offers_of_def booked(1))
    have "0 \<le> Offer.quantity (g d)" if d: "d \<in> set (offers_of db)" for d
    proof (cases "oid d = i")
      case True
      with d old have "d = offer" by (simp add: uniq)
      with True booked(4) show ?thesis by (simp add: g_quantity q_def)
    next
      case False
      with d assms(1) show ?thesis
        by (simp add: g_quantity coherent_def quantities_nonneg_def list_all_iff)
    qed
    then have c3: "quantities_nonneg db1"
      by (simp add: quantities_nonneg_def off list_all_iff)
    have u: "units db1 = units db"
      by (simp add: units_def off g_oid g_quantity res1 comp_def)
    from c1 c2 c3 u db1 show ?thesis by (simp add: coherent_def)
  qed
qed

lemma step_handle:
  assumes "coherent db" and "\<not> decrement_fails r"
  shows "coherent (handle c db r) \<and> units (handle c db r) = units db @ created_by c db r"
proof (cases r)
  case (CreateVendor e v)
  then show ?thesis
    using assms(1) same_collections [of "snd (create_vendor e db v)" db]
    by (simp add: create_vendor_effect)
next
  case (CreateOffer e offer code)
  then show ?thesis using assms(1) step_create_offer [of db offer c e code] by auto
next
  case (ListOffers e a b q)
  then show ?thesis using assms(1) by simp
next
  case (GetOffer e oi)
  then show ?thesis using assms(1) by simp
next
  case (Reserve e res)
  then show ?thesis using assms step_reserve [of db e res] by simp
qed

lemma run_conserves:
  assumes "coherent db" and "list_all (\<lambda>r. \<not> decrement_fails r) reqs"
  shows "coherent (run c db reqs) \<and> units (run c db reqs) = units db @ created c db reqs"
  using assms
proof (induction reqs arbitrary: db)
  case Nil
  then show ?case by (simp add: run_def)
next
  case (Cons r rs)
  from Cons.prems have 1: "coherent (handle c db r)"
    and 2: "units (handle c db r) = units db @ created_by c db r"
    using step_handle [of db r c] by simp_all
  from Cons.prems have 3: "list_all (\<lambda>r. \<not> decrement_fails r) rs" by simp
  from Cons.IH [OF 1 3] 2 show ?case by (simp add: run_def)
qed

text \<open>
  C4, as the spec states it, fails: an offer is created with quantity 5, and a
  reservation of 3 units meets a store that raises at the decrement. The record stays,
  the offer keeps its 5 units, and reserved plus remaining is 8.
\<close>

theorem units_not_conserved_on_failed_decrement:
  "coherent (Some empty_store)
   \<and> created None (Some empty_store)
        [CreateOffer (calm id_a) (bag 5 True) (Some ''admin123''),
         Reserve (failing id_b UpdateOne) (request_for 3)] = [(id_a, 5)]
   \<and> units (run None (Some empty_store)
        [CreateOffer (calm id_a) (bag 5 True) (Some ''admin123''),
         Reserve (failing id_b UpdateOne) (request_for 3)]) = [(id_a, 8)]"
  by code_simp

text \<open>
  C4, amended. Requests are served one at a time, starting from a store with unique
  offer ids, non-negative quantities and reservations that name offers of the store
  (the empty store is one), and no reservation meets a store that raises at its
  decrement. Then after the requests every offer the store held keeps the sum of its
  remaining quantity and of the quantities of its reservations that are not cancelled,
  every offer created by the requests has that sum equal to the quantity it was
  created with, and no quantity is negative.
\<close>

theorem units_conserved:
  assumes "coherent db" and "list_all (\<lambda>r. \<not> decrement_fails r) reqs"
  shows "units (run env_code db reqs) = units db @ created env_code db reqs
    \<and> quantities_nonneg (run env_code db reqs)
    \<and> coherent (run env_code db reqs)"
  using run_conserves [OF assms, of env_code] by (simp add: coherent_def)

theorem units_conserved_witness:
  "coherent (Some empty_store)
   \<and> list_all (\<lambda>r. \<not> decrement_fails r)
        [CreateOffer (calm id_a) (bag 5 True) (Some ''admin123''),
         Reserve (calm id_b) (request_for 3),
         Reserve (failing id_c InsertOne) (request_for 1),
         Reserve (calm id_d) (request_for 2)]
   \<and> units (Some empty_store) = []
   \<and> created None (Some empty_store)
        [CreateOffer (calm id_a) (bag 5 True) (Some ''admin123''),
         Reserve (calm id_b) (request_for 3),
         Reserve (failing id_c InsertOne) (request_for 1),
         Reserve (calm id_d) (request_for 2)] = [(id_a, 5)]
   \<and> units (run None (Some empty_store)
        [CreateOffer (calm id_a) (bag 5 True) (Some ''admin123''),
         Reserve (calm id_b) (request_for 3),
         Reserve (failing id_c InsertOne) (request_for 1),
         Reserve (calm id_d) (request_for 2)]) = [(id_a, 5)]
   \<and> map Offer.quantity (offers_of (run None (Some empty_store)
        [CreateOffer (calm id_a) (bag 5 True) (Some ''admin123''),
         Reserve (calm id_b) (request_for 3),
         Reserve (failing id_c InsertOne) (request_for 1),
         Reserve (calm id_d) (request_for 2)])) = [0]"
proof -
  let ?reqs = "[CreateOffer (calm id_a) (bag 5 True) (Some ''admin123''),
         Reserve (calm id_b) (request_for 3),
         Reserve (failing id_c InsertOne) (request_for 1),
         Reserve (calm id_d) (request_for 2)]"
  have 1: "coherent (Some empty_store)" by code_simp
  have 2: "list_all (\<lambda>r. \<not> decrement_fails r) ?reqs"
    by (simp add: calm_def failing_def)
  have 3: "units (Some empty_store) = []" by code_simp
  have 4: "created None (Some empty_store) ?reqs = [(id_a, 5)]" by code_simp
  have 5: "map Offer.quantity (offers_of (run None (Some empty_store) ?reqs)) = [0]"
    by code_simp
  from units_conserved [OF 1 2, of None]
  have "units (run None (Some empty_store) ?reqs)
      = units (Some empty_store) @ created None (Some empty_store) ?reqs"
    by (rule conjunct1)
  then have 6: "units (run None (Some empty_store) ?reqs) = [(id_a, 5)]"
    by (simp only: 3 4 append_Nil)
  from 1 2 3 4 6 5 show ?thesis by (intro conjI)
qed

end
